theory Spec2Isabelle
  imports Main
begin

section \<open>The VirtualPad control client (main_utils/virtualpad.js)\<close>

subsection \<open>JavaScript values\<close>

text \<open>
  The values the module handles. An object is the list of its own fields in the order
  they were written; an array is the list of its elements. Numbers are the integers and
  NaN: \<open>-0\<close> is identified with \<open>0\<close> (membership in a \<open>Set\<close>, truthiness and conversion
  to text do not tell them apart), and a number that is not an integer is left out of
  the model (it is truthy and no member of \<open>_pads\<close>, like the integer 8). Objects hold
  data only, no function-valued field.
\<close>

datatype jsval =
    JUndefined
  | JNull
  | JBool bool
  | JNum int
  | JNaN
  | JStr string
  | JArr "jsval list"
  | JObj "(string \<times> jsval) list"

text \<open>What an \<open>async\<close> operation can reject with.\<close>

datatype js_error = TypeError

text \<open>ToBoolean, as \<open>||\<close>, \<open>||=\<close> and \<open>?:\<close> apply it.\<close>

fun truthy :: "jsval \<Rightarrow> bool" where
  "truthy JUndefined = False"
| "truthy JNull = False"
| "truthy (JBool b) = b"
| "truthy (JNum n) = (n \<noteq> 0)"
| "truthy JNaN = False"
| "truthy (JStr s) = (s \<noteq> [])"
| "truthy (JArr xs) = True"
| "truthy (JObj fs) = True"

text \<open>\<open>a || b\<close>.\<close>

definition js_or :: "jsval \<Rightarrow> jsval \<Rightarrow> jsval" where
  "js_or a b = (if truthy a then a else b)"

text \<open>\<open>o.k\<close>: an own field of an object, \<open>undefined\<close> when there is none.\<close>

fun member :: "jsval \<Rightarrow> string \<Rightarrow> jsval" where
  "member (JObj fs) k = (case map_of fs k of Some v \<Rightarrow> v | None \<Rightarrow> JUndefined)"
| "member v k = JUndefined"

text \<open>\<open>o?.k\<close>: \<open>undefined\<close> when \<open>o\<close> is \<open>null\<close> or \<open>undefined\<close>, \<open>o.k\<close> otherwise.\<close>

definition opt_member :: "jsval \<Rightarrow> string \<Rightarrow> jsval" where
  "opt_member v k = (if v = JUndefined \<or> v = JNull then JUndefined else member v k)"

text \<open>Decimal digits of a number, as ToString writes an integer below \<open>10^21\<close>.\<close>

function show_nat :: "nat \<Rightarrow> string" where
  "show_nat n =
     (if n < 10 then [''0123456789'' ! n]
      else show_nat (n div 10) @ [''0123456789'' ! (n mod 10)])"
  by pat_completeness auto
termination
  by (relation "measure id") auto

declare show_nat.simps [simp del]

definition show_int :: "int \<Rightarrow> string" where
  "show_int n = (if n < 0 then ''-'' @ show_nat (nat (- n)) else show_nat (nat n))"

text \<open>
  ToString, as a template literal applies it, and \<open>Array.prototype.join\<close>, which writes
  \<open>undefined\<close> and \<open>null\<close> elements as the empty string.
\<close>

fun to_string :: "jsval \<Rightarrow> string"
  and join :: "jsval list \<Rightarrow> string \<Rightarrow> string" where
  "to_string JUndefined = ''undefined''"
| "to_string JNull = ''null''"
| "to_string (JBool b) = (if b then ''true'' else ''false'')"
| "to_string (JNum n) = show_int n"
| "to_string JNaN = ''NaN''"
| "to_string (JStr s) = s"
| "to_string (JArr xs) = join xs '',''"
| "to_string (JObj fs) = ''[object Object]''"
| "join [] sep = ''''"
| "join [x] sep =
     (case x of JUndefined \<Rightarrow> '''' | JNull \<Rightarrow> '''' | _ \<Rightarrow> to_string x)"
| "join (x # y # ys) sep =
     (case x of JUndefined \<Rightarrow> '''' | JNull \<Rightarrow> '''' | _ \<Rightarrow> to_string x)
       @ sep @ join (y # ys) sep"

subsection \<open>The collaborators: the command invoker and JSON.parse\<close>

text \<open>What \<open>await exec(cmd)\<close> resolves to: \<open>{stdout, stderr, result}\<close>.\<close>

record proc =
  stdout :: string
  stderr :: string
  result :: jsval

text \<open>
  \<open>run\<close> is what the invoker answers to a command line; \<open>json_parse\<close> is the
  runtime's \<open>JSON.parse\<close>, with \<open>None\<close> where it throws a SyntaxError. Both are
  parameters: a statement below holds for all of them that meet its hypotheses.
\<close>

record env =
  run :: "string \<Rightarrow> proc"
  json_parse :: "string \<Rightarrow> jsval option"

text \<open>
  Modelled from the spec: \<open>exec\<close> of \<open>./processes\<close>, which the module imports and which
  is not among the sources. By the spec's contract of the command invoker it runs one
  command line and resolves to its outcome \<open>{stdout, stderr, result}\<close>, never rejecting.
  The effect of an operation is the list of command lines handed to \<open>exec\<close>, oldest
  first; \<open>exec\<close> appends its command to it.
\<close>

definition exec :: "env \<Rightarrow> string \<Rightarrow> string list \<Rightarrow> proc \<times> string list" where
  "exec e cmd log = (run e cmd, log @ [cmd])"

subsection \<open>The module\<close>

definition jsonParse :: "env \<Rightarrow> string \<Rightarrow> jsval" where
  "jsonParse e v =
     (case json_parse e v of
        Some x \<Rightarrow> x
      | None \<Rightarrow> JObj [(''status'', JStr ''error''), (''hint'', JStr ''unknown''),
                      (''dump'', JStr v)])"

definition startServer :: "env \<Rightarrow> string list \<Rightarrow> jsval \<times> string list" where
  "startServer e log =
     (let (p, log') = exec e ''virtualpad-admin server start'' log;
          code = js_or (opt_member (result p) ''code'') (JNum 0)
      in (JObj [(''code'', code),
                (''details'',
                   if truthy code
                   then JObj [(''satus'', JStr ''error''), (''hint'', JStr ''unknown''),
                              (''dump'', JStr (stderr p))]
                   else jsonParse e (stdout p))],
          log'))"

definition stopServer :: "env \<Rightarrow> string list \<Rightarrow> jsval \<times> string list" where
  "stopServer e log =
     (let (p, log') = exec e ''virtualpad-admin server stop'' log;
          code = js_or (opt_member (result p) ''code'') (JNum 0)
      in (JObj [(''code'', code),
                (''details'',
                   if truthy code
                   then JObj [(''satus'', JStr ''error''), (''hint'', JStr ''unknown''),
                              (''dump'', JStr (stderr p))]
                   else jsonParse e (stdout p))],
          log'))"

definition checkServer :: "env \<Rightarrow> string list \<Rightarrow> jsval \<times> string list" where
  "checkServer e log =
     (let (p, log') = exec e ''virtualpad-admin server check'' log;
          code = js_or (opt_member (result p) ''code'') (JNum 0)
      in (JObj [(''code'', code),
                (''details'',
                   if truthy code
                   then JObj [(''satus'', JStr ''error''), (''hint'', JStr ''unknown''),
                              (''dump'', JStr (stderr p))]
                   else jsonParse e (stdout p))],
          log'))"

text \<open>The module constant \<open>_pads\<close>, and \<open>_pads.has\<close>.\<close>

definition u_pads :: "jsval list" where
  "u_pads =
     [JNum 0, JNum 1, JNum 2, JNum 3, JNum 4, JNum 5, JNum 6, JNum 7,
      JStr ''0'', JStr ''1'', JStr ''2'', JStr ''3'', JStr ''4'', JStr ''5'', JStr ''6'',
      JStr ''7'']"

definition pads_has :: "jsval \<Rightarrow> bool" where
  "pads_has v = (v \<in> set u_pads)"

definition clearPad :: "env \<Rightarrow> jsval \<Rightarrow> string list \<Rightarrow> jsval \<times> string list" where
  "clearPad e pad log =
     (if pad = JStr ''all'' then
        (let (p, log') = exec e ''virtualpad-admin pad clear-all'' log;
             code = js_or (opt_member (result p) ''code'') (JNum 0)
         in (JObj [(''code'', code),
                   (''details'',
                      if truthy code
                      then JObj [(''satus'', JStr ''error''), (''hint'', JStr ''unknown''),
                                 (''dump'', JStr (stderr p))]
                      else JObj [(''type'', JStr ''response''), (''status'', JStr ''pad:ok'')])],
             log'))
      else if pads_has pad then
        (let (p, log') = exec e (''virtualpad-admin pad clear '' @ to_string pad) log;
             code = js_or (opt_member (result p) ''code'') (JNum 0)
         in (JObj [(''code'', code),
                   (''details'',
                      if truthy code
                      then JObj [(''satus'', JStr ''error''), (''hint'', JStr ''unknown''),
                                 (''dump'', JStr (stderr p))]
                      else jsonParse e (stdout p))],
             log'))
      else
        (JObj [(''code'', JNum 1),
               (''details'',
                  JObj [(''satus'', JStr ''error''), (''hint'', JStr ''pad:invalid-index''),
                        (''index'', pad)])],
         log))"

definition status :: "env \<Rightarrow> string list \<Rightarrow> jsval \<times> string list" where
  "status e log =
     (let (p, log') = exec e ''virtualpad-admin pad status'' log;
          code = js_or (opt_member (result p) ''code'') (JNum 0)
      in (JObj [(''code'', code),
                (''details'',
                   if truthy code
                   then JObj [(''satus'', JStr ''error''), (''hint'', JStr ''unknown''),
                              (''dump'', JStr (stderr p))]
                   else jsonParse e (stdout p))],
          log'))"

text \<open>
  \<open>resetPasswords\<close>: \<open>pads.filter\<close> is a function only when \<open>pads\<close> is an array; on any
  other value that reaches the call it is \<open>undefined\<close>, and calling it raises a
  TypeError, which rejects the promise the operation returned.
\<close>

definition resetPasswords ::
  "env \<Rightarrow> jsval \<Rightarrow> string list \<Rightarrow> (js_error + jsval) \<times> string list" where
  "resetPasswords e pads log =
     (let pads1 = (if truthy pads then pads else JArr []);
          pads2 = (if pads1 = JStr ''all''
                   then JArr [JNum 0, JNum 1, JNum 2, JNum 3, JNum 4, JNum 5, JNum 6, JNum 7]
                   else pads1)
      in case pads2 of
           JArr xs \<Rightarrow>
             (let pads3 = filter pads_has xs
              in if length pads3 = 0 then (Inr (JObj [(''code'', JNum 0)]), log)
                 else
                   (let pads4 = join pads3 '' '';
                        (p, log') = exec e (''virtualpad-admin pad reset-passwords '' @ pads4) log;
                        code = js_or (opt_member (result p) ''code'') (JNum 0)
                    in (Inr (JObj [(''code'', code),
                                   (''details'',
                                      if truthy code
                                      then JObj [(''satus'', JStr ''error''),
                                                 (''hint'', JStr ''unknown''),
                                                 (''dump'', JStr (stderr p))]
                                      else jsonParse e (stdout p))]),
                        log')))
         | _ \<Rightarrow> (Inl TypeError, log))"

text \<open>
  The module's exports, as a caller reaches them: one of the six operations with its
  argument. Only \<open>resetPasswords\<close> has a path that throws.
\<close>

datatype api_call =
    StartServer
  | StopServer
  | CheckServer
  | ClearPad jsval
  | Status
  | ResetPasswords jsval

fun perform :: "env \<Rightarrow> api_call \<Rightarrow> string list \<Rightarrow> (js_error + jsval) \<times> string list" where
  "perform e StartServer log = (let (r, log') = startServer e log in (Inr r, log'))"
| "perform e StopServer log = (let (r, log') = stopServer e log in (Inr r, log'))"
| "perform e CheckServer log = (let (r, log') = checkServer e log in (Inr r, log'))"
| "perform e (ClearPad pad) log = (let (r, log') = clearPad e pad log in (Inr r, log'))"
| "perform e Status log = (let (r, log') = status e log in (Inr r, log'))"
| "perform e (ResetPasswords pads) log = resetPasswords e pads log"

subsection \<open>Notions the statements use\<close>

text \<open>
  The exit code as every operation reads it off an outcome: the line
  \<open>const code = result?.code || 0\<close>.
\<close>

definition exit_code :: "proc \<Rightarrow> jsval" where
  "exit_code p = js_or (opt_member (result p) ''code'') (JNum 0)"

text \<open>
  The value the operations build from an outcome (the \<open>return\<close> line that
  \<open>startServer\<close>, \<open>stopServer\<close>, \<open>checkServer\<close>, \<open>status\<close>, the single-pad branch of
  \<open>clearPad\<close> and \<open>resetPasswords\<close> repeat), and the one of the clear-all branch.
\<close>

definition reply :: "env \<Rightarrow> proc \<Rightarrow> jsval" where
  "reply e p =
     JObj [(''code'', exit_code p),
           (''details'',
              if truthy (exit_code p)
              then JObj [(''satus'', JStr ''error''), (''hint'', JStr ''unknown''),
                         (''dump'', JStr (stderr p))]
              else jsonParse e (stdout p))]"

definition reply_all :: "proc \<Rightarrow> jsval" where
  "reply_all p =
     JObj [(''code'', exit_code p),
           (''details'',
              if truthy (exit_code p)
              then JObj [(''satus'', JStr ''error''), (''hint'', JStr ''unknown''),
                         (''dump'', JStr (stderr p))]
              else JObj [(''type'', JStr ''response''), (''status'', JStr ''pad:ok'')])]"

definition outcome :: "env \<Rightarrow> api_call \<Rightarrow> proc \<Rightarrow> jsval" where
  "outcome e c p = (if c = ClearPad (JStr ''all'') then reply_all p else reply e p)"

text \<open>Words separated by single spaces: the argument list of a command line.\<close>

fun spaced :: "string list \<Rightarrow> string" where
  "spaced [] = []"
| "spaced [w] = w"
| "spaced (w # v # ws) = w @ '' '' @ spaced (v # ws)"

text \<open>
  A fake invoker for concrete runs: every command ends with the same output, error
  text and \<open>result\<close>, and \<open>JSON.parse\<close> is the given function.
\<close>

definition fake_env :: "string \<Rightarrow> string \<Rightarrow> jsval \<Rightarrow> (string \<Rightarrow> jsval option) \<Rightarrow> env" where
  "fake_env out err res pj =
     \<lparr>run = (\<lambda>cmd. \<lparr>stdout = out, stderr = err, result = res\<rparr>), json_parse = pj\<rparr>"

subsection \<open>JSON texts\<close>




















section \<open>Properties\<close>

subsection \<open>Each operation, in terms of the outcome of its command\<close>

lemma startServer_reply:
  "startServer e log =
     (reply e (run e ''virtualpad-admin server start''),
      log @ [''virtualpad-admin server start''])"
  by (simp add: startServer_def exec_def reply_def exit_code_def)

lemma stopServer_reply:
  "stopServer e log =
     (reply e (run e ''virtualpad-admin server stop''),
      log @ [''virtualpad-admin server stop''])"
  by (simp add: stopServer_def exec_def reply_def exit_code_def)

lemma checkServer_reply:
  "checkServer e log =
     (reply e (run e ''virtualpad-admin server check''),
      log @ [''virtualpad-admin server check''])"
  by (simp add: checkServer_def exec_def reply_def exit_code_def)

lemma status_reply:
  "status e log =
     (reply e (run e ''virtualpad-admin pad status''),
      log @ [''virtualpad-admin pad status''])"
  by (simp add: status_def exec_def reply_def exit_code_def)

lemma clearPad_all:
  "clearPad e (JStr ''all'') log =
     (reply_all (run e ''virtualpad-admin pad clear-all''),
      log @ [''virtualpad-admin pad clear-all''])"
  by (simp add: clearPad_def exec_def reply_all_def exit_code_def)

lemma clearPad_one:
  "pad \<noteq> JStr ''all'' \<Longrightarrow> pads_has pad \<Longrightarrow>
   clearPad e pad log =
     (reply e (run e (''virtualpad-admin pad clear '' @ to_string pad)),
      log @ [''virtualpad-admin pad clear '' @ to_string pad])"
  by (simp add: clearPad_def exec_def reply_def exit_code_def)

lemma clearPad_invalid:
  "pad \<noteq> JStr ''all'' \<Longrightarrow> \<not> pads_has pad \<Longrightarrow>
   clearPad e pad log =
     (JObj [(''code'', JNum 1),
            (''details'',
               JObj [(''satus'', JStr ''error''), (''hint'', JStr ''pad:invalid-index''),
                     (''index'', pad)])],
      log)"
  by (simp add: clearPad_def)

lemma resetPasswords_array:
  "resetPasswords e (JArr xs) log =
     (if filter pads_has xs = [] then (Inr (JObj [(''code'', JNum 0)]), log)
      else (Inr (reply e (run e (''virtualpad-admin pad reset-passwords ''
                                   @ join (filter pads_has xs) '' ''))),
            log @ [''virtualpad-admin pad reset-passwords ''
                     @ join (filter pads_has xs) '' '']))"
  by (simp add: resetPasswords_def exec_def reply_def exit_code_def Let_def)

lemma resetPasswords_falsy:
  "\<not> truthy pads \<Longrightarrow> resetPasswords e pads log = (Inr (JObj [(''code'', JNum 0)]), log)"
  by (simp add: resetPasswords_def)

lemma resetPasswords_all:
  "resetPasswords e (JStr ''all'') log =
     (Inr (reply e (run e ''virtualpad-admin pad reset-passwords 0 1 2 3 4 5 6 7'')),
      log @ [''virtualpad-admin pad reset-passwords 0 1 2 3 4 5 6 7''])"
  by (simp add: resetPasswords_def exec_def reply_def exit_code_def Let_def pads_has_def
      u_pads_def show_int_def show_nat.simps)

lemma resetPasswords_throws:
  "truthy pads \<Longrightarrow> pads \<noteq> JStr ''all'' \<Longrightarrow> \<forall>xs. pads \<noteq> JArr xs \<Longrightarrow>
   resetPasswords e pads log = (Inl TypeError, log)"
  by (cases pads) (simp_all add: resetPasswords_def)

text \<open>
  An operation that handed a command to the invoker returns the value built from that
  command's outcome.
\<close>

lemma perform_invokes:
  assumes "snd (perform e c log) = log @ [cmd]"
  shows "fst (perform e c log) = Inr (outcome e c (run e cmd))"
proof (cases c)
  case StartServer
  with assms show ?thesis by (simp add: startServer_reply outcome_def)
next
  case StopServer
  with assms show ?thesis by (simp add: stopServer_reply outcome_def)
next
  case CheckServer
  with assms show ?thesis by (simp add: checkServer_reply outcome_def)
next
  case Status
  with assms show ?thesis by (simp add: status_reply outcome_def)
next
  case (ClearPad pad)
  show ?thesis
  proof (cases "pad = JStr ''all''")
    case True
    with assms ClearPad show ?thesis by (simp add: clearPad_all outcome_def)
  next
    case False
    show ?thesis
    proof (cases "pads_has pad")
      case True
      with assms ClearPad False show ?thesis by (simp add: clearPad_one outcome_def)
    next
      case no: False
      with assms ClearPad False show ?thesis by (simp add: clearPad_invalid)
    qed
  qed
next
  case (ResetPasswords pads)
  show ?thesis
  proof (cases "truthy pads")
    case False
    with assms ResetPasswords show ?thesis by (simp add: resetPasswords_falsy)
  next
    case True
    show ?thesis
    proof (cases "pads = JStr ''all''")
      case all: True
      with assms ResetPasswords show ?thesis by (simp add: resetPasswords_all outcome_def)
    next
      case False
      show ?thesis
      proof (cases "\<exists>xs. pads = JArr xs")
        case arr: True
        then obtain xs where "pads = JArr xs" by blast
        with assms ResetPasswords show ?thesis
          by (simp add: resetPasswords_array outcome_def split: if_splits)
      next
        case noarr: False
        with assms ResetPasswords True False show ?thesis
          by (simp add: resetPasswords_throws)
      qed
    qed
  qed
qed

text \<open>
  Which calls hand a command to the invoker: all but \<open>clearPad\<close> of an invalid index and
  \<open>resetPasswords\<close> of anything but \<open>"all"\<close> or an array with a valid pad index. The
  others leave the list of commands as it was.
\<close>

lemma invoking_calls:
  "(\<exists>cmd. snd (perform e c log) = log @ [cmd]) \<longleftrightarrow>
     (case c of
        ClearPad pad \<Rightarrow> pad = JStr ''all'' \<or> pads_has pad
      | ResetPasswords pads \<Rightarrow>
          pads = JStr ''all'' \<or> (\<exists>xs. pads = JArr xs \<and> filter pads_has xs \<noteq> [])
      | _ \<Rightarrow> True)"
proof (cases c)
  case (ClearPad pad)
  then show ?thesis
    by (cases "pad = JStr ''all''"; cases "pads_has pad")
       (simp_all add: clearPad_all clearPad_one clearPad_invalid)
next
  case (ResetPasswords pads)
  show ?thesis
  proof (cases "pads = JStr ''all''")
    case True
    with ResetPasswords show ?thesis by (simp add: resetPasswords_all)
  next
    case False
    show ?thesis
    proof (cases "\<exists>xs. pads = JArr xs")
      case True
      then obtain xs where "pads = JArr xs" by blast
      with ResetPasswords show ?thesis by (simp add: resetPasswords_array)
    next
      case noarr: False
      then have "snd (resetPasswords e pads log) = log"
        using False
        by (cases "truthy pads") (simp_all add: resetPasswords_falsy resetPasswords_throws)
      with ResetPasswords False noarr show ?thesis by simp
    qed
  qed
qed (simp_all add: startServer_reply stopServer_reply checkServer_reply status_reply)

lemma silent_calls:
  "(\<forall>cmd. snd (perform e c log) \<noteq> log @ [cmd]) \<Longrightarrow> snd (perform e c log) = log"
proof (cases c)
  case (ClearPad pad)
  assume "\<forall>cmd. snd (perform e c log) \<noteq> log @ [cmd]"
  with ClearPad show ?thesis
    by (cases "pad = JStr ''all''"; cases "pads_has pad")
       (simp_all add: clearPad_all clearPad_one clearPad_invalid)
next
  case (ResetPasswords pads)
  assume quiet: "\<forall>cmd. snd (perform e c log) \<noteq> log @ [cmd]"
  show ?thesis
  proof (cases "truthy pads \<and> pads \<noteq> JStr ''all'' \<and> (\<forall>xs. pads \<noteq> JArr xs)")
    case True
    with ResetPasswords show ?thesis by (simp add: resetPasswords_throws)
  next
    case False
    then consider "\<not> truthy pads" | "pads = JStr ''all''" | xs where "pads = JArr xs"
      by blast
    then show ?thesis
    proof cases
      case 1
      with ResetPasswords show ?thesis by (simp add: resetPasswords_falsy)
    next
      case 2
      with ResetPasswords quiet show ?thesis by (simp add: resetPasswords_all)
    next
      case 3
      with ResetPasswords quiet show ?thesis
        by (simp add: resetPasswords_array split: if_splits)
    qed
  qed
qed (simp_all add: startServer_reply stopServer_reply checkServer_reply status_reply)

lemma pad_digit_cases: "n < (8::nat) \<Longrightarrow> n \<in> {0, 1, 2, 3, 4, 5, 6, 7}"
  by auto

lemma pad_number:
  "n < 8 \<Longrightarrow> pads_has (JNum (int n)) \<and> to_string (JNum (int n)) = [''01234567'' ! n]"
  by (drule pad_digit_cases)
     (auto simp: pads_has_def u_pads_def show_int_def show_nat.simps)

lemma pad_text:
  "n < 8 \<Longrightarrow> pads_has (JStr [''01234567'' ! n])"
  by (drule pad_digit_cases) (auto simp: pads_has_def u_pads_def)

lemma clearPad_number:
  "n < 8 \<Longrightarrow> snd (clearPad e (JNum (int n)) log) =
     log @ [''virtualpad-admin pad clear '' @ [''01234567'' ! n]]"
  using pad_number [of n] by (simp add: clearPad_one)

lemma clearPad_text:
  "n < 8 \<Longrightarrow> snd (clearPad e (JStr [''01234567'' ! n]) log) =
     log @ [''virtualpad-admin pad clear '' @ [''01234567'' ! n]]"
  using pad_text [of n] by (simp add: clearPad_one)

lemma pad_not_nullish: "pads_has x \<Longrightarrow> x \<noteq> JUndefined \<and> x \<noteq> JNull"
  by (auto simp: pads_has_def u_pads_def)

text \<open>On pad indices, \<open>join(" ")\<close> writes the texts of the elements with single spaces.\<close>

lemma join_spaced:
  "\<forall>x \<in> set ys. pads_has x \<Longrightarrow> join ys '' '' = spaced (map to_string ys)"
proof (induction ys)
  case Nil
  show ?case by simp
next
  case (Cons y ys)
  then have y: "y \<noteq> JUndefined" "y \<noteq> JNull"
    and ih: "join ys '' '' = spaced (map to_string ys)"
    by (auto dest: pad_not_nullish)
  show ?case
  proof (cases ys)
    case Nil
    with y show ?thesis by (cases y) simp_all
  next
    case (Cons z zs)
    with y ih show ?thesis by (cases y) simp_all
  qed
qed

subsection \<open>The decoder: process failures and unparseable output\<close>

text \<open>
  C1, as the code has it. Take any operation that handed a command \<open>cmd\<close> to the
  invoker. If the exit code is a non-zero number \<open>n\<close>, the result is
  \<open>{code: n, details: d}\<close> where \<open>d.hint\<close> is \<open>"unknown"\<close> and \<open>d.dump\<close> is the error
  text, whatever the output was. If the exit code is zero and the output does not
  parse, the result is \<open>{code: 0, details: {status: "error", hint: "unknown", dump:
  stdout}}\<close>, for every operation but \<open>clearPad("all")\<close>, which does not read the output.
\<close>

theorem failure_envelopes:
  assumes "snd (perform e c log) = log @ [cmd]"
  shows "(\<forall>n. exit_code (run e cmd) = JNum n \<and> n \<noteq> 0 \<longrightarrow>
            (\<exists>d. fst (perform e c log) = Inr (JObj [(''code'', JNum n), (''details'', d)])
                 \<and> member d ''hint'' = JStr ''unknown''
                 \<and> member d ''dump'' = JStr (stderr (run e cmd))))
       \<and> (exit_code (run e cmd) = JNum 0 \<and> json_parse e (stdout (run e cmd)) = None
            \<and> c \<noteq> ClearPad (JStr ''all'') \<longrightarrow>
            fst (perform e c log) =
              Inr (JObj [(''code'', JNum 0),
                         (''details'',
                            JObj [(''status'', JStr ''error''), (''hint'', JStr ''unknown''),
                                  (''dump'', JStr (stdout (run e cmd)))])]))"
  using perform_invokes [OF assms]
  by (auto simp: outcome_def reply_def reply_all_def jsonParse_def)

text \<open>
  The spec's two examples: exit code 2 with error text \<open>boom\<close> on \<open>startServer\<close>, and
  exit code 0 with output \<open>not json\<close> on \<open>status\<close>.
\<close>

theorem failure_envelopes_witness:
  "snd (perform (fake_env ''{}'' ''boom'' (JObj [(''code'', JNum 2)]) (\<lambda>s. None)) StartServer [])
     = [] @ [''virtualpad-admin server start'']
   \<and> exit_code (run (fake_env ''{}'' ''boom'' (JObj [(''code'', JNum 2)]) (\<lambda>s. None))
        ''virtualpad-admin server start'') = JNum 2
   \<and> (\<exists>d. fst (perform (fake_env ''{}'' ''boom'' (JObj [(''code'', JNum 2)]) (\<lambda>s. None))
               StartServer [])
             = Inr (JObj [(''code'', JNum 2), (''details'', d)])
          \<and> member d ''hint'' = JStr ''unknown'' \<and> member d ''dump'' = JStr ''boom'')
   \<and> snd (perform (fake_env ''not json'' '''' JNull (\<lambda>s. None)) Status [])
     = [] @ [''virtualpad-admin pad status'']
   \<and> exit_code (run (fake_env ''not json'' '''' JNull (\<lambda>s. None))
        ''virtualpad-admin pad status'') = JNum 0
   \<and> fst (perform (fake_env ''not json'' '''' JNull (\<lambda>s. None)) Status [])
     = Inr (JObj [(''code'', JNum 0),
                  (''details'',
                     JObj [(''status'', JStr ''error''), (''hint'', JStr ''unknown''),
                           (''dump'', JStr ''not json'')])])"
proof -
  let ?e1 = "fake_env ''{}'' ''boom'' (JObj [(''code'', JNum 2)]) (\<lambda>s. None)"
  let ?e2 = "fake_env ''not json'' '''' JNull (\<lambda>s. None)"
  have l1: "snd (perform ?e1 StartServer []) = [] @ [''virtualpad-admin server start'']"
    by (simp add: startServer_reply)
  have c1: "exit_code (run ?e1 ''virtualpad-admin server start'') = JNum 2"
    by (simp add: fake_env_def exit_code_def js_or_def opt_member_def)
  have l2: "snd (perform ?e2 Status []) = [] @ [''virtualpad-admin pad status'']"
    by (simp add: status_reply)
  have c2: "exit_code (run ?e2 ''virtualpad-admin pad status'') = JNum 0"
    by (simp add: fake_env_def exit_code_def js_or_def opt_member_def)
  have s: "stdout (run ?e2 ''virtualpad-admin pad status'') = ''not json''"
    "json_parse ?e2 ''not json'' = None"
    "stderr (run ?e1 ''virtualpad-admin server start'') = ''boom''"
    by (simp_all add: fake_env_def)
  from failure_envelopes [OF l1] c1 s
  have r1: "\<exists>d. fst (perform ?e1 StartServer [])
                  = Inr (JObj [(''code'', JNum 2), (''details'', d)])
              \<and> member d ''hint'' = JStr ''unknown'' \<and> member d ''dump'' = JStr ''boom''"
    by simp
  from failure_envelopes [OF l2] c2 s
  have r2: "fst (perform ?e2 Status [])
     = Inr (JObj [(''code'', JNum 0),
                  (''details'',
                     JObj [(''status'', JStr ''error''), (''hint'', JStr ''unknown''),
                           (''dump'', JStr ''not json'')])])"
    by simp
  from l1 c1 r1 l2 c2 r2 show ?thesis by blast
qed

text \<open>
  C1 as the claim words it fails twice. \<open>clearPad("all")\<close> with exit code 0 and output
  \<open>not json\<close> returns its own success envelope, not the error envelope; and
  \<open>startServer\<close> with exit code 2 returns an envelope whose first key is spelled
  \<open>satus\<close>, which is not the \<open>{status, hint, dump}\<close> envelope of the claim.
\<close>

theorem failure_envelopes_not_as_claimed:
  "fst (clearPad (fake_env ''not json'' '''' (JObj [(''code'', JNum 0)]) (\<lambda>s. None))
          (JStr ''all'') [])
     = JObj [(''code'', JNum 0),
             (''details'', JObj [(''type'', JStr ''response''), (''status'', JStr ''pad:ok'')])]
   \<and> fst (clearPad (fake_env ''not json'' '''' (JObj [(''code'', JNum 0)]) (\<lambda>s. None))
          (JStr ''all'') [])
     \<noteq> JObj [(''code'', JNum 0),
             (''details'',
                JObj [(''status'', JStr ''error''), (''hint'', JStr ''unknown''),
                      (''dump'', JStr ''not json'')])]
   \<and> fst (startServer (fake_env '''' ''boom'' (JObj [(''code'', JNum 2)]) (\<lambda>s. None)) [])
     = JObj [(''code'', JNum 2),
             (''details'',
                JObj [(''satus'', JStr ''error''), (''hint'', JStr ''unknown''),
                      (''dump'', JStr ''boom'')])]
   \<and> fst (startServer (fake_env '''' ''boom'' (JObj [(''code'', JNum 2)]) (\<lambda>s. None)) [])
     \<noteq> JObj [(''code'', JNum 2),
             (''details'',
                JObj [(''status'', JStr ''error''), (''hint'', JStr ''unknown''),
                      (''dump'', JStr ''boom'')])]"
  by (simp add: clearPad_def startServer_def exec_def fake_env_def js_or_def opt_member_def)

subsection \<open>clearPad\<close>

text \<open>
  C2, at the argument 8. \<open>clearPad(8)\<close> hands nothing to the invoker and returns code 1
  with the hint \<open>pad:invalid-index\<close> and the argument under \<open>index\<close>; the key that holds
  \<open>"error"\<close> is spelled \<open>satus\<close>, and the envelope has no \<open>status\<close> field.
\<close>

theorem clearPad_8:
  "clearPad e (JNum 8) log =
     (JObj [(''code'', JNum 1),
            (''details'',
               JObj [(''satus'', JStr ''error''), (''hint'', JStr ''pad:invalid-index''),
                     (''index'', JNum 8)])],
      log)
   \<and> member (member (fst (clearPad e (JNum 8) log)) ''details'') ''status'' = JUndefined"
  by (simp add: clearPad_def pads_has_def u_pads_def)

text \<open>
  C3. For every pad index \<open>n\<close> in 0..7, as a number and as its decimal text,
  \<open>clearPad\<close> hands the invoker the one command \<open>pad clear n\<close>. \<open>clearPad("all")\<close> hands
  it the one command \<open>pad clear-all\<close>; when the exit code is zero its result is
  \<open>{code: 0, details: {type: "response", status: "pad:ok"}}\<close>; and what it returns does
  not depend on \<open>JSON.parse\<close>, whose place any function \<open>pj\<close> can take.
\<close>

theorem clearPad_commands:
  "(\<forall>n<8. snd (clearPad e (JNum (int n)) log) =
              log @ [''virtualpad-admin pad clear '' @ [''01234567'' ! n]]
         \<and> snd (clearPad e (JStr [''01234567'' ! n]) log) =
              log @ [''virtualpad-admin pad clear '' @ [''01234567'' ! n]])
   \<and> snd (clearPad e (JStr ''all'') log) = log @ [''virtualpad-admin pad clear-all'']
   \<and> (exit_code (run e ''virtualpad-admin pad clear-all'') = JNum 0 \<longrightarrow>
        fst (clearPad e (JStr ''all'') log) =
          JObj [(''code'', JNum 0),
                (''details'',
                   JObj [(''type'', JStr ''response''), (''status'', JStr ''pad:ok'')])])
   \<and> clearPad (e\<lparr>json_parse := pj\<rparr>) (JStr ''all'') log = clearPad e (JStr ''all'') log"
  by (simp add: clearPad_number clearPad_text clearPad_all reply_all_def)

theorem clearPad_commands_witness:
  "snd (clearPad (fake_env ''garbage'' '''' JNull (\<lambda>s. None)) (JNum 5) []) =
     [''virtualpad-admin pad clear 5'']
   \<and> snd (clearPad (fake_env ''garbage'' '''' JNull (\<lambda>s. None)) (JStr ''5'') []) =
     [''virtualpad-admin pad clear 5'']
   \<and> exit_code (run (fake_env ''garbage'' '''' JNull (\<lambda>s. None))
        ''virtualpad-admin pad clear-all'') = JNum 0
   \<and> fst (clearPad (fake_env ''garbage'' '''' JNull (\<lambda>s. None)) (JStr ''all'') []) =
       JObj [(''code'', JNum 0),
             (''details'', JObj [(''type'', JStr ''response''), (''status'', JStr ''pad:ok'')])]"
proof -
  let ?e = "fake_env ''garbage'' '''' JNull (\<lambda>s. None)"
  note inst = clearPad_commands [of ?e "[]" "\<lambda>s. None"]
  have c: "exit_code (run ?e ''virtualpad-admin pad clear-all'') = JNum 0"
    by (simp add: fake_env_def exit_code_def js_or_def opt_member_def)
  have five: "(5::nat) < 8"
    by simp
  from inst five
  have "snd (clearPad ?e (JNum (int 5)) []) =
          [] @ [''virtualpad-admin pad clear '' @ [''01234567'' ! 5]]
        \<and> snd (clearPad ?e (JStr [''01234567'' ! 5]) []) =
          [] @ [''virtualpad-admin pad clear '' @ [''01234567'' ! 5]]"
    by blast
  then have n: "snd (clearPad ?e (JNum 5) []) = [''virtualpad-admin pad clear 5'']"
    and t: "snd (clearPad ?e (JStr ''5'') []) = [''virtualpad-admin pad clear 5'']"
    by simp_all
  from inst c
  have a: "fst (clearPad ?e (JStr ''all'') []) =
       JObj [(''code'', JNum 0),
             (''details'', JObj [(''type'', JStr ''response''), (''status'', JStr ''pad:ok'')])]"
    by blast
  from n t c a show ?thesis by blast
qed

subsection \<open>resetPasswords\<close>

text \<open>
  C4. \<open>resetPasswords(undefined)\<close>, \<open>resetPasswords([])\<close> and \<open>resetPasswords\<close> of a list
  with no valid pad index each return exactly \<open>{code: 0}\<close>, an object with no
  \<open>details\<close> field, and hand nothing to the invoker.
\<close>

theorem resetPasswords_noop:
  "resetPasswords e JUndefined log = (Inr (JObj [(''code'', JNum 0)]), log)
   \<and> resetPasswords e (JArr []) log = (Inr (JObj [(''code'', JNum 0)]), log)
   \<and> ((\<forall>x \<in> set xs. \<not> pads_has x) \<longrightarrow>
        resetPasswords e (JArr xs) log = (Inr (JObj [(''code'', JNum 0)]), log))
   \<and> member (JObj [(''code'', JNum 0)]) ''details'' = JUndefined"
  by (simp add: resetPasswords_falsy resetPasswords_array filter_empty_conv)

theorem resetPasswords_noop_witness:
  "\<not> pads_has (JNum 9) \<and> \<not> pads_has (JNum 10)
   \<and> resetPasswords (fake_env ''{}'' '''' JNull (\<lambda>s. None)) (JArr [JNum 9, JNum 10]) []
       = (Inr (JObj [(''code'', JNum 0)]), [])"
proof -
  have h: "\<not> pads_has (JNum 9)" "\<not> pads_has (JNum 10)"
    by (simp_all add: pads_has_def u_pads_def)
  with resetPasswords_noop [of "fake_env ''{}'' '''' JNull (\<lambda>s. None)" "[]"
      "[JNum 9, JNum 10]"]
  show ?thesis by simp
qed

text \<open>
  C5, as the code has it. The indices \<open>resetPasswords\<close> passes are the valid pad
  indices of the list, in their order in the list, each as often as it occurs there:
  elements that are no pad index are dropped, duplicates are kept, nothing is
  reordered. With no valid element nothing is handed to the invoker.
\<close>

theorem resetPasswords_indices:
  "(filter pads_has xs \<noteq> [] \<longrightarrow>
      snd (resetPasswords e (JArr xs) log) =
        log @ [''virtualpad-admin pad reset-passwords ''
                 @ spaced (map to_string (filter pads_has xs))])
   \<and> (filter pads_has xs = [] \<longrightarrow> snd (resetPasswords e (JArr xs) log) = log)"
  by (simp add: resetPasswords_array join_spaced)

text \<open>The spec's example: \<open>resetPasswords([3,1,99,2])\<close> passes \<open>3 1 2\<close>.\<close>

theorem resetPasswords_indices_witness:
  "filter pads_has [JNum 3, JNum 1, JNum 99, JNum 2] = [JNum 3, JNum 1, JNum 2]
   \<and> snd (resetPasswords (fake_env ''{}'' '''' JNull (\<lambda>s. None))
            (JArr [JNum 3, JNum 1, JNum 99, JNum 2]) [])
       = [''virtualpad-admin pad reset-passwords 3 1 2'']"
proof -
  have f: "filter pads_has [JNum 3, JNum 1, JNum 99, JNum 2] = [JNum 3, JNum 1, JNum 2]"
    by (simp add: pads_has_def u_pads_def)
  have s: "spaced (map to_string [JNum 3, JNum 1, JNum 2]) = ''3 1 2''"
    by (simp add: show_int_def show_nat.simps)
  from resetPasswords_indices [of "[JNum 3, JNum 1, JNum 99, JNum 2]"
      "fake_env ''{}'' '''' JNull (\<lambda>s. None)" "[]"] f s
  show ?thesis by simp
qed

text \<open>
  C5 as the claim words it fails: duplicates are not dropped.
  \<open>resetPasswords([3,3,1])\<close> passes \<open>3 3 1\<close>, not \<open>3 1\<close>.
\<close>

theorem resetPasswords_keeps_duplicates:
  "snd (resetPasswords (fake_env ''{}'' '''' JNull (\<lambda>s. None))
          (JArr [JNum 3, JNum 3, JNum 1]) [])
     = [''virtualpad-admin pad reset-passwords 3 3 1'']
   \<and> snd (resetPasswords (fake_env ''{}'' '''' JNull (\<lambda>s. None))
          (JArr [JNum 3, JNum 3, JNum 1]) [])
     \<noteq> [''virtualpad-admin pad reset-passwords 3 1'']"
  by (simp add: resetPasswords_def exec_def Let_def pads_has_def u_pads_def show_int_def
      show_nat.simps)

text \<open>
  C6. \<open>resetPasswords("all")\<close> hands the invoker exactly one command, the
  reset-passwords command with the indices \<open>0 1 2 3 4 5 6 7\<close> in that order, whatever
  the invoker answers.
\<close>

theorem resetPasswords_all_command:
  "snd (resetPasswords e (JStr ''all'') log) =
     log @ [''virtualpad-admin pad reset-passwords 0 1 2 3 4 5 6 7'']"
  by (simp add: resetPasswords_def exec_def Let_def pads_has_def u_pads_def show_int_def
      show_nat.simps)

subsection \<open>Decoded payloads\<close>






























subsection \<open>Returning and throwing\<close>

text \<open>
  C8, as the code has it. An operation returns a result value, for every invoker and
  every argument, unless it is \<open>resetPasswords\<close> applied to a truthy value that is
  neither \<open>"all"\<close> nor an array; there, and only there, it throws. So \<open>resetPasswords\<close>
  returns on every array, on \<open>"all"\<close> and on every falsy value, and throws on a single
  pad index other than the number 0.
\<close>

theorem operations_return:
  "(\<exists>r. fst (perform e c log) = Inr r)
     \<longleftrightarrow> \<not> (\<exists>v. c = ResetPasswords v \<and> truthy v \<and> v \<noteq> JStr ''all'' \<and> (\<forall>xs. v \<noteq> JArr xs))"
proof (cases c)
  case (ResetPasswords pads)
  show ?thesis
  proof (cases "truthy pads \<and> pads \<noteq> JStr ''all'' \<and> (\<forall>xs. pads \<noteq> JArr xs)")
    case True
    with ResetPasswords show ?thesis by (simp add: resetPasswords_throws)
  next
    case False
    then consider "\<not> truthy pads" | "pads = JStr ''all''" | xs where "pads = JArr xs"
      by blast
    then have "\<exists>r. fst (resetPasswords e pads log) = Inr r"
    proof cases
      case 1
      then show ?thesis by (simp add: resetPasswords_falsy)
    next
      case 2
      then show ?thesis by (simp add: resetPasswords_all)
    next
      case 3
      then show ?thesis by (simp add: resetPasswords_array)
    qed
    with ResetPasswords False show ?thesis by auto
  qed
qed (simp_all add: split_beta)

theorem operations_return_witness:
  "(\<exists>r. fst (perform (fake_env ''{}'' '''' JNull (\<lambda>s. None))
              (ResetPasswords (JArr [JNum 3])) []) = Inr r)
   \<and> (\<exists>r. fst (perform (fake_env ''{}'' '''' JNull (\<lambda>s. None))
              (ResetPasswords (JNum 0)) []) = Inr r)
   \<and> \<not> (\<exists>r. fst (perform (fake_env ''{}'' '''' JNull (\<lambda>s. None))
              (ResetPasswords (JStr ''3'')) []) = Inr r)"
proof -
  let ?e = "fake_env ''{}'' '''' JNull (\<lambda>s. None)"
  have a: "\<exists>r. fst (perform ?e (ResetPasswords (JArr [JNum 3])) []) = Inr r"
    using operations_return [of ?e "ResetPasswords (JArr [JNum 3])" "[]"] by simp
  have b: "\<exists>r. fst (perform ?e (ResetPasswords (JNum 0)) []) = Inr r"
    using operations_return [of ?e "ResetPasswords (JNum 0)" "[]"] by simp
  have c: "\<not> (\<exists>r. fst (perform ?e (ResetPasswords (JStr ''3'')) []) = Inr r)"
    using operations_return [of ?e "ResetPasswords (JStr ''3'')" "[]"] by simp
  from a b c show ?thesis by blast
qed

text \<open>
  C8 as the claim words it fails on a single pad index: \<open>resetPasswords(3)\<close> and
  \<open>resetPasswords("3")\<close> throw a TypeError, with nothing handed to the invoker.
\<close>

theorem resetPasswords_single_index_throws:
  "resetPasswords (fake_env ''{}'' '''' JNull (\<lambda>s. None)) (JNum 3) [] = (Inl TypeError, [])
   \<and> resetPasswords (fake_env ''{}'' '''' JNull (\<lambda>s. None)) (JStr ''3'') []
       = (Inl TypeError, [])"
  by (simp add: resetPasswords_def)

subsection \<open>The code field\<close>

text \<open>
  C9. For every operation that handed a command to the invoker, the \<open>code\<close> of its
  result is the exit status \<open>result?.code\<close> when that is a number, and 0 when there is
  none (\<open>result\<close> is \<open>null\<close> or \<open>undefined\<close>, or has no \<open>code\<close>, or a \<open>null\<close> one).
\<close>

theorem code_is_exit_status:
  assumes "snd (perform e c log) = log @ [cmd]"
  shows "\<exists>r. fst (perform e c log) = Inr r
           \<and> (\<forall>n. opt_member (result (run e cmd)) ''code'' = JNum n \<longrightarrow>
                  member r ''code'' = JNum n)
           \<and> (opt_member (result (run e cmd)) ''code'' = JUndefined
                \<or> opt_member (result (run e cmd)) ''code'' = JNull \<longrightarrow>
              member r ''code'' = JNum 0)"
  using perform_invokes [OF assms]
  by (auto simp: outcome_def reply_def reply_all_def exit_code_def js_or_def)

theorem code_is_exit_status_witness:
  "snd (perform (fake_env '''' ''boom'' (JObj [(''code'', JNum 2)]) (\<lambda>s. None)) StopServer [])
     = [] @ [''virtualpad-admin server stop'']
   \<and> opt_member (result (run (fake_env '''' ''boom'' (JObj [(''code'', JNum 2)]) (\<lambda>s. None))
                    ''virtualpad-admin server stop'')) ''code'' = JNum 2
   \<and> (\<exists>r. fst (perform (fake_env '''' ''boom'' (JObj [(''code'', JNum 2)]) (\<lambda>s. None))
                StopServer []) = Inr r
          \<and> member r ''code'' = JNum 2)
   \<and> snd (perform (fake_env ''{}'' '''' JNull (\<lambda>s. None)) StopServer [])
     = [] @ [''virtualpad-admin server stop'']
   \<and> opt_member (result (run (fake_env ''{}'' '''' JNull (\<lambda>s. None))
                    ''virtualpad-admin server stop'')) ''code'' = JUndefined
   \<and> (\<exists>r. fst (perform (fake_env ''{}'' '''' JNull (\<lambda>s. None)) StopServer []) = Inr r
          \<and> member r ''code'' = JNum 0)"
proof -
  let ?e1 = "fake_env '''' ''boom'' (JObj [(''code'', JNum 2)]) (\<lambda>s. None)"
  let ?e2 = "fake_env ''{}'' '''' JNull (\<lambda>s. None)"
  have l1: "snd (perform ?e1 StopServer []) = [] @ [''virtualpad-admin server stop'']"
    and l2: "snd (perform ?e2 StopServer []) = [] @ [''virtualpad-admin server stop'']"
    by (simp_all add: stopServer_reply)
  have c1: "opt_member (result (run ?e1 ''virtualpad-admin server stop'')) ''code'' = JNum 2"
    and c2: "opt_member (result (run ?e2 ''virtualpad-admin server stop'')) ''code''
               = JUndefined"
    by (simp_all add: fake_env_def opt_member_def)
  from code_is_exit_status [OF l1] c1
  have r1: "\<exists>r. fst (perform ?e1 StopServer []) = Inr r \<and> member r ''code'' = JNum 2"
    by blast
  from code_is_exit_status [OF l2] c2
  have r2: "\<exists>r. fst (perform ?e2 StopServer []) = Inr r \<and> member r ''code'' = JNum 0"
    by blast
  from l1 c1 r1 l2 c2 r2 show ?thesis by blast
qed

subsection \<open>The spelling of the error key\<close>

text \<open>
  C10. For every operation that handed a command to the invoker, the envelope of a
  non-zero exit code holds \<open>"error"\<close> under the key \<open>satus\<close> and has no \<open>status\<close> field,
  and so does the envelope \<open>clearPad\<close> returns for an invalid index; the envelope of an
  output that does not parse (exit code zero, any operation but \<open>clearPad("all")\<close>) holds
  \<open>"error"\<close> under \<open>status\<close> and has no \<open>satus\<close> field. So the test
  \<open>details.status === "error"\<close> holds on a decode failure, and fails on a process
  failure and on a validation failure.
\<close>

theorem envelope_keys_differ:
  "(snd (perform e c log) = log @ [cmd] \<longrightarrow>
      (\<exists>r. fst (perform e c log) = Inr r
         \<and> (\<forall>n. exit_code (run e cmd) = JNum n \<and> n \<noteq> 0 \<longrightarrow>
                member (member r ''details'') ''satus'' = JStr ''error''
                \<and> member (member r ''details'') ''status'' = JUndefined)
         \<and> (exit_code (run e cmd) = JNum 0 \<and> json_parse e (stdout (run e cmd)) = None
              \<and> c \<noteq> ClearPad (JStr ''all'') \<longrightarrow>
                member (member r ''details'') ''status'' = JStr ''error''
                \<and> member (member r ''details'') ''satus'' = JUndefined)))
   \<and> (pad \<noteq> JStr ''all'' \<and> \<not> pads_has pad \<longrightarrow>
        member (member (fst (clearPad e pad log)) ''details'') ''satus'' = JStr ''error''
        \<and> member (member (fst (clearPad e pad log)) ''details'') ''status'' = JUndefined)"
proof (intro conjI impI)
  assume "snd (perform e c log) = log @ [cmd]"
  from perform_invokes [OF this]
  show "\<exists>r. fst (perform e c log) = Inr r
         \<and> (\<forall>n. exit_code (run e cmd) = JNum n \<and> n \<noteq> 0 \<longrightarrow>
                member (member r ''details'') ''satus'' = JStr ''error''
                \<and> member (member r ''details'') ''status'' = JUndefined)
         \<and> (exit_code (run e cmd) = JNum 0 \<and> json_parse e (stdout (run e cmd)) = None
              \<and> c \<noteq> ClearPad (JStr ''all'') \<longrightarrow>
                member (member r ''details'') ''status'' = JStr ''error''
                \<and> member (member r ''details'') ''satus'' = JUndefined)"
    by (auto simp: outcome_def reply_def reply_all_def jsonParse_def)
next
  assume "pad \<noteq> JStr ''all'' \<and> \<not> pads_has pad"
  then show "member (member (fst (clearPad e pad log)) ''details'') ''satus'' = JStr ''error''"
    by (simp add: clearPad_invalid)
next
  assume "pad \<noteq> JStr ''all'' \<and> \<not> pads_has pad"
  then show "member (member (fst (clearPad e pad log)) ''details'') ''status'' = JUndefined"
    by (simp add: clearPad_invalid)
qed

theorem envelope_keys_differ_witness:
  "snd (perform (fake_env '''' ''boom'' (JObj [(''code'', JNum 2)]) (\<lambda>s. None)) Status [])
     = [] @ [''virtualpad-admin pad status'']
   \<and> exit_code (run (fake_env '''' ''boom'' (JObj [(''code'', JNum 2)]) (\<lambda>s. None))
        ''virtualpad-admin pad status'') = JNum 2
   \<and> (\<exists>r. fst (perform (fake_env '''' ''boom'' (JObj [(''code'', JNum 2)]) (\<lambda>s. None))
                Status []) = Inr r
          \<and> member (member r ''details'') ''satus'' = JStr ''error''
          \<and> member (member r ''details'') ''status'' = JUndefined)
   \<and> snd (perform (fake_env ''not json'' '''' JNull (\<lambda>s. None)) Status [])
     = [] @ [''virtualpad-admin pad status'']
   \<and> exit_code (run (fake_env ''not json'' '''' JNull (\<lambda>s. None))
        ''virtualpad-admin pad status'') = JNum 0
   \<and> (\<exists>r. fst (perform (fake_env ''not json'' '''' JNull (\<lambda>s. None)) Status []) = Inr r
          \<and> member (member r ''details'') ''status'' = JStr ''error''
          \<and> member (member r ''details'') ''satus'' = JUndefined)
   \<and> \<not> pads_has (JStr ''x'')
   \<and> member (member (fst (clearPad (fake_env ''not json'' '''' JNull (\<lambda>s. None))
                             (JStr ''x'') [])) ''details'') ''satus'' = JStr ''error''
   \<and> member (member (fst (clearPad (fake_env ''not json'' '''' JNull (\<lambda>s. None))
                             (JStr ''x'') [])) ''details'') ''status'' = JUndefined"
proof -
  let ?e1 = "fake_env '''' ''boom'' (JObj [(''code'', JNum 2)]) (\<lambda>s. None)"
  let ?e2 = "fake_env ''not json'' '''' JNull (\<lambda>s. None)"
  let ?cmd = "''virtualpad-admin pad status''"
  have l1: "snd (perform ?e1 Status []) = [] @ [?cmd]"
    and l2: "snd (perform ?e2 Status []) = [] @ [?cmd]"
    by (simp_all add: status_reply)
  have c1: "exit_code (run ?e1 ?cmd) = JNum 2"
    and c2: "exit_code (run ?e2 ?cmd) = JNum 0"
    by (simp_all add: fake_env_def exit_code_def js_or_def opt_member_def)
  have p2: "json_parse ?e2 (stdout (run ?e2 ?cmd)) = None"
    by (simp add: fake_env_def)
  have x: "JStr ''x'' \<noteq> JStr ''all''" "\<not> pads_has (JStr ''x'')"
    by (simp_all add: pads_has_def u_pads_def)
  from envelope_keys_differ [of ?e1 Status "[]" ?cmd "JStr ''x''"] l1 c1
  have r1: "\<exists>r. fst (perform ?e1 Status []) = Inr r
          \<and> member (member r ''details'') ''satus'' = JStr ''error''
          \<and> member (member r ''details'') ''status'' = JUndefined"
    by auto
  from envelope_keys_differ [of ?e2 Status "[]" ?cmd "JStr ''x''"] l2 c2 p2
  have r2: "\<exists>r. fst (perform ?e2 Status []) = Inr r
          \<and> member (member r ''details'') ''status'' = JStr ''error''
          \<and> member (member r ''details'') ''satus'' = JUndefined"
    by auto
  from envelope_keys_differ [of ?e2 Status "[]" ?cmd "JStr ''x''"] x
  have r3: "member (member (fst (clearPad ?e2 (JStr ''x'') [])) ''details'') ''satus''
              = JStr ''error''"
    "member (member (fst (clearPad ?e2 (JStr ''x'') [])) ''details'') ''status'' = JUndefined"
    by blast+
  from l1 c1 r1 l2 c2 r2 x(2) r3 show ?thesis by blast
qed

end
